theory Spec2Isabelle
  imports Main
begin

section \<open>All Goblins Have Names: the table-string resolver of scripts/index.js\<close>

text \<open>
  A shallow embedding of \<^verbatim>\<open>src/scripts/index.js\<close>. The module reacts to the creation of
  a token, looks for a roll-table reference in the token's name and in the biography of
  its actor, rolls the referenced tables and writes the rolled values back.

  Conventions of the embedding:
  \<^item> a JavaScript string is a \<open>string\<close>; an index counts list positions;
  \<^item> a thrown \<^verbatim>\<open>Error\<close> (also the rejection of an awaited promise) is the \<open>Inl\<close> of a
    sum, a returned value is the \<open>Inr\<close>; an \<^verbatim>\<open>await\<close> is sequencing;
  \<^item> what the code reads from the host (\<^verbatim>\<open>game\<close>, the DOM, the helpers imported from
    \<^verbatim>\<open>table-utils.js\<close>) is a field of the record \<open>env\<close>;
  \<^item> what the code does to the host (notifications, console warnings, document updates)
    is appended to a log in the record \<open>world\<close>, which every effectful function threads.
\<close>

subsection \<open>JavaScript values and string primitives\<close>

text \<open>
  The values a resolution can yield: \<^verbatim>\<open>undefined\<close>, a string, or an array of result
  entries (an entry is identified by its text).
\<close>

datatype jsval = Undefined | Str string | Arr "string list"

text \<open>JavaScript truthiness: \<^verbatim>\<open>undefined\<close> and the empty string are falsy, every array is truthy.\<close>

fun truthy :: "jsval \<Rightarrow> bool" where
  "truthy Undefined = False"
| "truthy (Str s) = (s \<noteq> [])"
| "truthy (Arr xs) = True"

definition falsy :: "jsval \<Rightarrow> bool" where
  "falsy v = (\<not> truthy v)"

text \<open>The \<^verbatim>\<open>length\<close> property of a string or an array.\<close>

fun jslength :: "jsval \<Rightarrow> nat" where
  "jslength Undefined = 0"
| "jslength (Str s) = length s"
| "jslength (Arr xs) = length xs"

text \<open>Truthiness of a variable that holds a string or \<^verbatim>\<open>undefined\<close>.\<close>

fun truthyStr :: "string option \<Rightarrow> bool" where
  "truthyStr None = False"
| "truthyStr (Some s) = (s \<noteq> [])"

text \<open>\<^verbatim>\<open>s.indexOf(c)\<close> for a one-character needle: the first position of \<open>c\<close>, or \<open>-1\<close>.\<close>

fun firstIndex :: "char \<Rightarrow> string \<Rightarrow> nat option" where
  "firstIndex c [] = None"
| "firstIndex c (x # xs) =
     (if x = c then Some 0 else map_option Suc (firstIndex c xs))"

definition indexOf :: "string \<Rightarrow> char \<Rightarrow> int" where
  "indexOf s c = (case firstIndex c s of None \<Rightarrow> - 1 | Some i \<Rightarrow> int i)"

text \<open>
  \<^verbatim>\<open>s.substring(start, end)\<close>: each argument is clamped to \<open>[0, length s]\<close>, and the two
  are swapped when the first exceeds the second.
\<close>

definition substring :: "string \<Rightarrow> int \<Rightarrow> int \<Rightarrow> string" where
  "substring s start end =
     (let n = int (length s);
          a = max 0 (min start n);
          b = max 0 (min end n);
          lo = min a b;
          hi = max a b
      in take (nat (hi - lo)) (drop (nat lo) s))"

text \<open>\<^verbatim>\<open>s.split(c)\<close> for a one-character separator; the empty string gives one empty part.\<close>

fun split_on :: "char \<Rightarrow> string \<Rightarrow> string list" where
  "split_on c [] = [[]]"
| "split_on c (x # xs) =
     (if x = c then [] # split_on c xs
      else (case split_on c xs of
              [] \<Rightarrow> [[x]]
            | p # ps \<Rightarrow> (x # p) # ps))"

text \<open>\<^verbatim>\<open>parts.join(c)\<close>, the inverse of the split.\<close>

fun join_with :: "char \<Rightarrow> string list \<Rightarrow> string" where
  "join_with c [] = []"
| "join_with c [p] = p"
| "join_with c (p # q # ps) = p @ c # join_with c (q # ps)"

text \<open>\<^verbatim>\<open>s.trim()\<close>, on the ASCII white space and line terminators.\<close>

definition whitespace :: "char \<Rightarrow> bool" where
  "whitespace c = (c \<in> {CHR 0x09, CHR 0x0A, CHR 0x0B, CHR 0x0C, CHR 0x0D, CHR 0x20})"

definition trim :: "string \<Rightarrow> string" where
  "trim s = rev (dropWhile whitespace (rev (dropWhile whitespace s)))"

subsection \<open>Errors\<close>

text \<open>
  One constructor for each \<^verbatim>\<open>throw\<close> of the source, carrying what the message
  interpolates; \<open>TypeError base prop\<close> is the engine's error for reading property
  \<open>prop\<close> of \<^verbatim>\<open>undefined\<close> or \<^verbatim>\<open>null\<close>; \<open>RollTableError\<close> is a rejection of the
  imported \<^verbatim>\<open>rollTable\<close>.
\<close>

datatype error =
    FormatError string
  | PackNotFound string
  | TableNotFound string string
  | RollFailed string string
  | RollTableError string
  | TypeError string string

fun message :: "error \<Rightarrow> string" where
  "message (FormatError displayName) =
     ''Expected format to match @UUID[Compendium.module.table.Rolltable.id] Got: '' @ displayName"
| "message (PackNotFound packId) =
     ''Couldn't find a compendium with id '' @ packId"
| "message (TableNotFound ident packId) =
     ''Couldn't find table with id '' @ ident @ '' in pack '' @ packId"
| "message (RollFailed ident packId) =
     ''Couldn't roll table id '' @ ident @ '' in pack '' @ packId"
| "message (RollTableError m) = m"
| "message (TypeError base prop) =
     ''Cannot read properties of '' @ base @ '' (reading '' @ [CHR 0x27] @ prop @ [CHR 0x27] @ '')''"

subsection \<open>The host: registries, documents, effects\<close>

text \<open>A roll table: its \<^verbatim>\<open>_id\<close> and its content, which only the roll primitive reads.\<close>

record table =
  tbl_id :: string
  tbl_entries :: "string list"

text \<open>A compendium pack: \<^verbatim>\<open>pack.getDocument(id)\<close>.\<close>

record pack =
  getDocument :: "string \<Rightarrow> table option"

text \<open>
  An actor: \<^verbatim>\<open>actor.system\<close>, with the flat \<^verbatim>\<open>biography\<close> of the simple worldbuilding
  system and the nested \<^verbatim>\<open>details.biography.value\<close> of D&D 5e. A field that is absent
  is \<open>None\<close>.
\<close>

record details_biography =
  bio_value :: "string option"

record details =
  det_biography :: "details_biography option"

record actor_system =
  biography :: "string option"
  details :: "details option"

record actor =
  system :: actor_system

text \<open>
  The token record the module receives (\<^verbatim>\<open>tokenData\<close>, \<^verbatim>\<open>tokenDocument\<close>): its name, its
  \<^verbatim>\<open>actorId\<close> (\<open>None\<close> when null), its \<^verbatim>\<open>actorLink\<close> flag, its \<^verbatim>\<open>document\<close> property
  (\<open>None\<close> when the record has none) with that document's \<^verbatim>\<open>id\<close>, and the id of the
  actor document its \<^verbatim>\<open>actor\<close> property holds (\<open>None\<close> when null).
\<close>

record token_document =
  doc_id :: "string option"

record token =
  name :: string
  actorId :: "string option"
  actorLink :: bool
  document :: "token_document option"
  actor :: "string option"

text \<open>
  Everything the code reads from its surroundings. The three helpers of
  \<^verbatim>\<open>table-utils.js\<close> are parameters: the two classifiers are pure tests on a string,
  and \<^verbatim>\<open>rollTable\<close> yields a value or rejects with a message.
\<close>

record env =
  isWorldTable :: "string \<Rightarrow> bool"
  isCompendiumTable :: "string \<Rightarrow> bool"
  rollTable :: "table \<Rightarrow> string + jsval"
  tables :: "table list"
  packs :: "string \<Rightarrow> pack option"
  actors :: "string \<Rightarrow> actor option"
  innerText :: "string \<Rightarrow> string"
  syncActorName :: bool

text \<open>
  A call of \<^verbatim>\<open>update\<close> on the token document, or on the actor with the given id: the
  one key of the change and its value.
\<close>

datatype doc_update =
    TokenUpdate string jsval
  | ActorUpdate string string jsval

record world =
  notifications :: "string list"
  warnings :: "string list"
  updates :: "doc_update list"

definition notify_error :: "string \<Rightarrow> world \<Rightarrow> world" where
  "notify_error m w = w\<lparr>notifications := notifications w @ [m]\<rparr>"

definition console_warn :: "string \<Rightarrow> world \<Rightarrow> world" where
  "console_warn m w = w\<lparr>warnings := warnings w @ [m]\<rparr>"

definition do_update :: "doc_update \<Rightarrow> world \<Rightarrow> world" where
  "do_update u w = w\<lparr>updates := updates w @ [u]\<rparr>"

subsection \<open>Resolving a table string\<close>

text \<open>Lines 38-39: the identifier a world-table string carries.\<close>

definition worldTableId :: "string \<Rightarrow> string" where
  "worldTableId displayName =
     (let endIndex = indexOf displayName CHR '']''
      in substring displayName 16 endIndex)"

definition getRollTableResult :: "env \<Rightarrow> string \<Rightarrow> world \<Rightarrow> (error + jsval) \<times> world" where
  "getRollTableResult e displayName w =
     (let table_id = worldTableId displayName
      in case find (\<lambda>t. tbl_id t = table_id) (tables e) of
           Some t \<Rightarrow>
             (case rollTable e t of
                Inl m \<Rightarrow> (Inl (RollTableError m), w)
              | Inr results \<Rightarrow> (Inr results, w))
         | None \<Rightarrow>
             (Inr Undefined,
              notify_error (''Can't find a table that matches '' @ displayName) w))"

text \<open>Lines 56-57: the parts of the identifier a compendium-table string carries.\<close>

definition compendiumIdParts :: "string \<Rightarrow> string list" where
  "compendiumIdParts displayName =
     (let endIndex = indexOf displayName CHR '']''
      in split_on CHR ''.'' (substring displayName 6 endIndex))"

definition getCompendiumTableResult :: "env \<Rightarrow> string \<Rightarrow> error + jsval" where
  "getCompendiumTableResult e displayName =
     (let idParts = compendiumIdParts displayName
      in if length idParts \<noteq> 5 then Inl (FormatError displayName)
         else
           let packId = idParts ! 1 @ ''.'' @ idParts ! 2
           in case packs e packId of
                None \<Rightarrow> Inl (PackNotFound packId)
              | Some p \<Rightarrow>
                  (case getDocument p (idParts ! 4) of
                     None \<Rightarrow> Inl (TableNotFound (idParts ! 4) packId)
                   | Some t \<Rightarrow>
                       (case rollTable e t of
                          Inl m \<Rightarrow> Inl (RollTableError m)
                        | Inr results \<Rightarrow>
                            if falsy results \<or> jslength results = 0
                            then Inl (RollFailed (idParts ! 4) packId)
                            else Inr results)))"

definition rollFromTableString :: "env \<Rightarrow> string \<Rightarrow> world \<Rightarrow> (error + jsval) \<times> world" where
  "rollFromTableString e tableStr w =
     (if \<not> isWorldTable e tableStr \<and> \<not> isCompendiumTable e tableStr
      then (Inr (Str tableStr), w)
      else if isWorldTable e tableStr
        then getRollTableResult e tableStr w
        else (getCompendiumTableResult e tableStr, w))"

subsection \<open>Mining a token for table strings\<close>

record mining =
  nameTableStr :: "string option"
  bioDataPath :: "string option"
  bioTableStr :: "string option"

text \<open>\<^verbatim>\<open>tokenData.actorId || tokenData.document.id\<close>\<close>

definition resolveActorId :: "token \<Rightarrow> error + string option" where
  "resolveActorId tokenData =
     (if truthyStr (actorId tokenData) then Inr (actorId tokenData)
      else (case document tokenData of
              None \<Rightarrow> Inl (TypeError ''undefined'' ''id'')
            | Some d \<Rightarrow> Inr (doc_id d)))"

text \<open>
  \<^verbatim>\<open>actorData.details && actorData.details.biography && actorData.details.biography.value\<close>:
  the value at the end of the chain, \<^verbatim>\<open>undefined\<close> as soon as a link is missing.
\<close>

definition nestedBiography :: "actor_system \<Rightarrow> string option" where
  "nestedBiography actorData =
     (case details actorData of
        None \<Rightarrow> None
      | Some d \<Rightarrow>
          (case det_biography d of
             None \<Rightarrow> None
           | Some b \<Rightarrow> bio_value b))"

text \<open>
  The two-branch read of the biography: the value of \<^verbatim>\<open>bio\<close> and of \<^verbatim>\<open>bioDataPath\<close>
  after the \<^verbatim>\<open>if\<close> / \<^verbatim>\<open>else if\<close>; both stay \<^verbatim>\<open>undefined\<close> when neither branch is taken.
\<close>

definition readBiography :: "actor_system \<Rightarrow> string option \<times> string option" where
  "readBiography actorData =
     (if truthyStr (biography actorData)
      then (biography actorData, Some ''data.biography'')
      else if truthyStr (nestedBiography actorData)
        then (nestedBiography actorData, Some ''system.details.biography.value'')
        else (None, None))"

text \<open>
  Assigning \<^verbatim>\<open>undefined\<close> to \<^verbatim>\<open>innerHTML\<close> stores the string \<^verbatim>\<open>"undefined"\<close>; the
  rendering of markup to text is the host's.
\<close>

definition bioInnerText :: "env \<Rightarrow> string option \<Rightarrow> string" where
  "bioInnerText e bio =
     trim (innerText e (case bio of None \<Rightarrow> ''undefined'' | Some b \<Rightarrow> b))"

text \<open>\<^verbatim>\<open>if (isWorldTable(s) || isCompendiumTable(s))\<close> the variable is set to \<open>s\<close>.\<close>

definition classified :: "env \<Rightarrow> string \<Rightarrow> string option" where
  "classified e s = (if isWorldTable e s \<or> isCompendiumTable e s then Some s else None)"

definition mineForTableStrings :: "env \<Rightarrow> token \<Rightarrow> error + mining" where
  "mineForTableStrings e tokenData =
     (let displayName = trim (name tokenData);
          nameStr = classified e displayName
      in case resolveActorId tokenData of
           Inl err \<Rightarrow> Inl err
         | Inr ident \<Rightarrow>
             if \<not> actorLink tokenData \<and> truthyStr ident
             then (case ident of
                     None \<Rightarrow> Inr \<lparr>nameTableStr = nameStr, bioDataPath = None, bioTableStr = None\<rparr>
                   | Some i \<Rightarrow>
                       (case actors e i of
                          None \<Rightarrow> Inl (TypeError ''undefined'' ''system'')
                        | Some a \<Rightarrow>
                            (let actorData = system a;
                                 (bio, path) = readBiography actorData;
                                 bioText = bioInnerText e bio
                             in Inr \<lparr>nameTableStr = nameStr, bioDataPath = path,
                                     bioTableStr = classified e bioText\<rparr>)))
             else Inr \<lparr>nameTableStr = nameStr, bioDataPath = None, bioTableStr = None\<rparr>)"

subsection \<open>Rolling and writing back\<close>

record rolled =
  res_bioDataPath :: "string option"
  res_name :: jsval
  res_bio :: jsval

text \<open>The \<^verbatim>\<open>catch\<close> block: a warning, and no value is returned.\<close>

definition caught :: "error \<Rightarrow> world \<Rightarrow> rolled option \<times> world" where
  "caught err w = (None, console_warn (''[All Goblins Have Names]: '' @ message err) w)"

definition getNewRolledValues :: "env \<Rightarrow> mining \<Rightarrow> world \<Rightarrow> rolled option \<times> world" where
  "getNewRolledValues e m w =
     (let result = \<lparr>res_bioDataPath = bioDataPath m, res_name = Undefined, res_bio = Undefined\<rparr>;
          (r1, w1) =
            (case nameTableStr m of
               None \<Rightarrow> (Inr result, w)
             | Some n \<Rightarrow>
                 if n = [] then (Inr result, w)
                 else (case rollFromTableString e n w of
                         (Inl err, w') \<Rightarrow> (Inl err, w')
                       | (Inr v, w') \<Rightarrow> (Inr (result\<lparr>res_name := v\<rparr>), w')))
      in case r1 of
           Inl err \<Rightarrow> caught err w1
         | Inr result1 \<Rightarrow>
             (case bioTableStr m of
                None \<Rightarrow> (Some result1, w1)
              | Some b \<Rightarrow>
                  if b = [] then (Some result1, w1)
                  else (case rollFromTableString e b w1 of
                          (Inl err, w2) \<Rightarrow> caught err w2
                        | (Inr v, w2) \<Rightarrow> (Some (result1\<lparr>res_bio := v\<rparr>), w2))))"

text \<open>A computed key \<^verbatim>\<open>[result.bioDataPath]\<close>: \<^verbatim>\<open>undefined\<close> becomes the key \<^verbatim>\<open>"undefined"\<close>.\<close>

definition computedKey :: "string option \<Rightarrow> string" where
  "computedKey k = (case k of None \<Rightarrow> ''undefined'' | Some p \<Rightarrow> p)"

text \<open>\<^verbatim>\<open>tokenDocument.actor.update({[key]: v})\<close>\<close>

definition actorUpdate :: "token \<Rightarrow> string \<Rightarrow> jsval \<Rightarrow> world \<Rightarrow> (error + unit) \<times> world" where
  "actorUpdate tokenDocument key v w =
     (case actor tokenDocument of
        None \<Rightarrow> (Inl (TypeError ''null'' ''update''), w)
      | Some a \<Rightarrow> (Inr (), do_update (ActorUpdate a key v) w))"

definition saveRolledValues :: "env \<Rightarrow> token \<Rightarrow> rolled option \<Rightarrow> world \<Rightarrow> (error + unit) \<times> world" where
  "saveRolledValues e tokenDocument result w =
     (case result of
        None \<Rightarrow> (Inl (TypeError ''undefined'' ''name''), w)
      | Some r \<Rightarrow>
          (let w1 = do_update (TokenUpdate ''name'' (res_name r)) w;
               (s2, w2) =
                 (if truthy (res_bio r)
                  then actorUpdate tokenDocument (computedKey (res_bioDataPath r)) (res_bio r) w1
                  else (Inr (), w1))
           in case s2 of
                Inl err \<Rightarrow> (Inl err, w2)
              | Inr u \<Rightarrow>
                  if syncActorName e \<and> truthy (res_name r)
                  then actorUpdate tokenDocument ''name'' (res_name r) w2
                  else (Inr (), w2)))"

subsection \<open>The handler of the createToken hook\<close>

text \<open>
  The handler returns the outcome of its promise, the token document (whose \<^verbatim>\<open>name\<close> it
  may have overwritten with the placeholder) and the effects it had.
\<close>

definition createToken :: "env \<Rightarrow> token \<Rightarrow> world \<Rightarrow> (error + unit) \<times> token \<times> world" where
  "createToken e tokenDocument w =
     (case mineForTableStrings e tokenDocument of
        Inl err \<Rightarrow> (Inl err, tokenDocument, w)
      | Inr toRoll \<Rightarrow>
          if \<not> truthyStr (nameTableStr toRoll) \<and> \<not> truthyStr (bioTableStr toRoll)
          then (Inr (), tokenDocument, w)
          else
            (let blanked = tokenDocument\<lparr>name := '' ''\<rparr>;
                 (result, w1) = getNewRolledValues e toRoll w;
                 (s, w2) = saveRolledValues e blanked result w1
             in (s, blanked, w2)))"

subsection \<open>The field an update key addresses\<close>

text \<open>
  The host's \<^verbatim>\<open>update\<close> takes a dotted key as the chain of properties that leads from
  the document to the field to write. \<open>actorField a key\<close> is the biography field of the
  actor that \<open>key\<close> leads to, among the two the module reads: \<^verbatim>\<open>actor.system.biography\<close>
  and \<^verbatim>\<open>actor.system.details.biography.value\<close>.
\<close>

definition actorField :: "actor \<Rightarrow> string \<Rightarrow> string option" where
  "actorField a key =
     (let ks = split_on CHR ''.'' key
      in if ks = [''system'', ''biography''] then biography (system a)
         else if ks = [''system'', ''details'', ''biography'', ''value'']
           then nestedBiography (system a)
           else None)"

subsection \<open>A concrete world\<close>

text \<open>
  Modelled from the spec: the classifiers \<^verbatim>\<open>isWorldTable\<close> and \<^verbatim>\<open>isCompendiumTable\<close> of
  \<^verbatim>\<open>table-utils.js\<close>, a file that is not among the sources. The spec describes a local
  reference as a fixed 16-character marker, an identifier and a closing bracket, and a
  packaged reference as a fixed marker, a dot-separated coordinate and a closing bracket;
  the markers are those of the comments in \<^verbatim>\<open>index.js\<close>. The theorems below hold for
  every pair of classifiers; these two only instantiate them.
\<close>

definition specIsWorldTable :: "string \<Rightarrow> bool" where
  "specIsWorldTable s =
     (take 16 s = ''@UUID[RollTable.'' \<and> CHR '']'' \<in> set (drop 16 s))"

text \<open>
  Modelled from the spec: the classifier \<^verbatim>\<open>isCompendiumTable\<close> of \<^verbatim>\<open>table-utils.js\<close>,
  with the marker of a packaged reference.
\<close>

definition specIsCompendiumTable :: "string \<Rightarrow> bool" where
  "specIsCompendiumTable s =
     (take 17 s = ''@UUID[Compendium.'' \<and> CHR '']'' \<in> set (drop 17 s))"

text \<open>
  A roll primitive for the examples: it draws every entry of the table, in order, so
  a table without entries rolls to the empty array.
\<close>

definition rollEntries :: "table \<Rightarrow> string + jsval" where
  "rollEntries t = Inr (Arr (tbl_entries t))"

definition goblinNames :: table where
  "goblinNames = \<lparr>tbl_id = ''ABC123'', tbl_entries = [''Grix'']\<rparr>"

definition blankTable :: table where
  "blankTable = \<lparr>tbl_id = ''EMPTY1'', tbl_entries = []\<rparr>"

definition dwarfNames :: table where
  "dwarfNames = \<lparr>tbl_id = ''AQBywLCajYDmBTay'', tbl_entries = [''Thorin'']\<rparr>"

definition personNames :: pack where
  "personNames =
     \<lparr>getDocument = (\<lambda>i. if i = ''AQBywLCajYDmBTay'' then Some dwarfNames else None)\<rparr>"

text \<open>An actor of the simple worldbuilding system, and one of D&D 5e.\<close>

definition bioActor :: actor where
  "bioActor =
     \<lparr>system = \<lparr>biography = Some ''@UUID[RollTable.ABC123]{Bio}'', details = None\<rparr>\<rparr>"

definition nestedActor :: actor where
  "nestedActor =
     \<lparr>system =
        \<lparr>biography = None,
         details = Some \<lparr>det_biography =
           Some \<lparr>bio_value = Some ''@UUID[Compendium.gone.names.RollTable.XYZ]{Bio}''\<rparr>\<rparr>\<rparr>\<rparr>"

text \<open>The biographies of this world carry no markup, so their rendering is the text itself.\<close>

definition exampleEnv :: env where
  "exampleEnv =
     \<lparr>isWorldTable = specIsWorldTable,
      isCompendiumTable = specIsCompendiumTable,
      rollTable = rollEntries,
      tables = [goblinNames, blankTable],
      packs = (\<lambda>k. if k = ''monks-enhanced-journal.person-names''
                     then Some personNames else None),
      actors = (\<lambda>k. if k = ''actor1'' then Some bioActor
                      else if k = ''actor2'' then Some nestedActor else None),
      innerText = (\<lambda>h. h),
      syncActorName = True\<rparr>"

definition quiet :: world where
  "quiet = \<lparr>notifications = [], warnings = [], updates = []\<rparr>"

definition fourParts :: string where
  "fourParts =
     ''@UUID[Compendium.monks-enhanced-journal.person-names.AQBywLCajYDmBTay]{Dwarf Last Name}''"

definition fiveParts :: string where
  "fiveParts =
     ''@UUID[Compendium.monks-enhanced-journal.person-names.RollTable.AQBywLCajYDmBTay]{Dwarf Last Name}''"

definition absentPack :: string where
  "absentPack = ''@UUID[Compendium.other.person-names.RollTable.AQBywLCajYDmBTay]{Dwarf Last Name}''"

definition absentDocument :: string where
  "absentDocument =
     ''@UUID[Compendium.monks-enhanced-journal.person-names.RollTable.ZZZ]{Dwarf Last Name}''"

definition goblinToken :: token where
  "goblinToken =
     \<lparr>name = ''@UUID[RollTable.ABC123]{Goblin Name}'', actorId = Some ''actor1'',
      actorLink = False, document = None, actor = Some ''actor1''\<rparr>"

definition linkedToken :: token where
  "linkedToken = goblinToken\<lparr>actorLink := True\<rparr>"

definition dwarfToken :: token where
  "dwarfToken = goblinToken\<lparr>actorId := Some ''actor2'', actor := Some ''actor2''\<rparr>"

definition orphanToken :: token where
  "orphanToken = goblinToken\<lparr>actorId := Some ''ghost'', actor := None\<rparr>"

definition fallbackToken :: token where
  "fallbackToken =
     goblinToken\<lparr>actorId := None, document := Some \<lparr>doc_id = Some ''tok9''\<rparr>, actor := None\<rparr>"

text \<open>What mining finds on \<open>dwarfToken\<close>, and a record of rolled values without a name.\<close>

definition dwarfMining :: mining where
  "dwarfMining =
     \<lparr>nameTableStr = Some ''@UUID[RollTable.ABC123]{Goblin Name}'',
      bioDataPath = Some ''system.details.biography.value'',
      bioTableStr = Some ''@UUID[Compendium.gone.names.RollTable.XYZ]{Bio}''\<rparr>"

definition bioOnly :: rolled where
  "bioOnly =
     \<lparr>res_bioDataPath = Some ''system.details.biography.value'',
      res_name = Undefined, res_bio = Arr [''A dour smith'']\<rparr>"

section \<open>String primitives\<close>

lemma firstIndex_less: "firstIndex c s = Some i \<Longrightarrow> i < length s"
  by (induction s arbitrary: i) (auto split: if_splits)

lemma firstIndex_takeWhile:
  "firstIndex c s = Some i \<Longrightarrow> takeWhile (\<lambda>x. x \<noteq> c) s = take i s"
  by (induction s arbitrary: i) (auto split: if_splits)

text \<open>
  When the closing character first stands at position \<open>i\<close>, not before \<open>k\<close>, the
  \<^verbatim>\<open>substring(k, indexOf(c))\<close> of the source is the text between position \<open>k\<close> and
  that character.
\<close>

lemma substring_between:
  assumes "firstIndex c s = Some i" and "k \<le> i"
  shows "substring s (int k) (indexOf s c) = take (i - k) (drop k s)"
proof -
  have "i < length s" using assms(1) by (rule firstIndex_less)
  then show ?thesis
    using assms
    by (simp add: substring_def indexOf_def Let_def min_def max_def nat_diff_distrib')
qed

text \<open>Without a closing character the same call yields the first \<open>k\<close> characters.\<close>

lemma substring_unclosed:
  assumes "firstIndex c s = None"
  shows "substring s (int k) (indexOf s c) = take k s"
  using assms by (simp add: substring_def indexOf_def Let_def min_def max_def)

text \<open>A closing character that stands before position \<open>k\<close> swaps the two arguments.\<close>

lemma substring_swapped:
  assumes "firstIndex c s = Some i" and "i < k"
  shows "substring s (int k) (indexOf s c) = take (min k (length s) - i) (drop i s)"
proof -
  have "i < length s" using assms(1) by (rule firstIndex_less)
  then show ?thesis
    using assms
    by (simp add: substring_def indexOf_def Let_def min_def max_def nat_diff_distrib')
qed

text \<open>
  The split is the one of JavaScript: joining the parts with the separator gives the
  string back, no part holds the separator, and there is one part more than there are
  separators.
\<close>

lemma split_on_nonempty: "split_on c s \<noteq> []"
  by (induction s) (auto split: list.splits)

lemma join_split_on: "join_with c (split_on c s) = s"
proof (induction s)
  case Nil
  then show ?case by simp
next
  case (Cons x xs)
  show ?case
  proof (cases "split_on c xs")
    case Nil
    then show ?thesis using split_on_nonempty [of c xs] by simp
  next
    case (Cons p ps)
    then show ?thesis using Cons.IH by (cases ps) auto
  qed
qed

lemma split_on_parts_free: "p \<in> set (split_on c s) \<Longrightarrow> c \<notin> set p"
  by (induction s arbitrary: p) (auto split: if_splits list.splits)

lemma length_split_on: "length (split_on c s) = Suc (length (filter (\<lambda>x. x = c) s))"
  by (induction s) (auto split: list.splits simp: split_on_nonempty)

text \<open>The first position of a character that stands after a prefix free of it.\<close>

lemma firstIndex_member: "c \<in> set s \<Longrightarrow> \<exists>i. firstIndex c s = Some i"
  by (induction s) auto

lemma firstIndex_skip:
  "c \<notin> set xs \<Longrightarrow> firstIndex c (xs @ ys) = map_option (\<lambda>i. length xs + i) (firstIndex c ys)"
proof (induction xs)
  case Nil
  then show ?case by (cases "firstIndex c ys") simp_all
next
  case (Cons x xs)
  then show ?case by (cases "firstIndex c ys") auto
qed

lemma closed_after_marker:
  assumes "take n s = m" and "length m = n" and "c \<notin> set m" and "c \<in> set (drop n s)"
  shows "\<exists>i. firstIndex c s = Some i \<and> n \<le> i"
proof -
  obtain j where j: "firstIndex c (drop n s) = Some j"
    using assms(4) firstIndex_member by blast
  have "s = m @ drop n s" using assms(1) by (metis append_take_drop_id)
  then have "firstIndex c s = map_option (\<lambda>i. length m + i) (firstIndex c (drop n s))"
    using firstIndex_skip [OF assms(3), of "drop n s"] by simp
  then show ?thesis using j assms(2) by simp
qed


section \<open>The classifiers of the concrete world\<close>

text \<open>
  No string is both kinds of reference, and a string of either kind has its first
  closing bracket after the prefix the code skips, so that the identifier the code
  parses is the text between that prefix and the bracket.
\<close>

lemma spec_classifiers_exclusive: "\<not> (specIsWorldTable s \<and> specIsCompendiumTable s)"
proof
  assume "specIsWorldTable s \<and> specIsCompendiumTable s"
  then have a: "take 16 s = ''@UUID[RollTable.''" and b: "take 17 s = ''@UUID[Compendium.''"
    by (simp_all add: specIsWorldTable_def specIsCompendiumTable_def)
  have "take 7 (take 16 s) = take 7 (take 17 s)" by simp
  then show False unfolding a b by simp
qed


lemma spec_compendium_closed:
  assumes "specIsCompendiumTable s"
  shows "\<exists>i. firstIndex CHR '']'' s = Some i \<and> 17 \<le> i"
proof -
  have a: "take 17 s = ''@UUID[Compendium.''" and b: "CHR '']'' \<in> set (drop 17 s)"
    using assms by (simp_all add: specIsCompendiumTable_def)
  have c: "length ''@UUID[Compendium.'' = 17" by simp
  have d: "CHR '']'' \<notin> set ''@UUID[Compendium.''" by simp
  show ?thesis by (rule closed_after_marker [OF a c d b])
qed

lemma spec_world_closed:
  assumes "specIsWorldTable s"
  shows "\<exists>i. firstIndex CHR '']'' s = Some i \<and> 16 \<le> i"
proof -
  have a: "take 16 s = ''@UUID[RollTable.''" and b: "CHR '']'' \<in> set (drop 16 s)"
    using assms by (simp_all add: specIsWorldTable_def)
  have c: "length ''@UUID[RollTable.'' = 16" by simp
  have d: "CHR '']'' \<notin> set ''@UUID[RollTable.''" by simp
  show ?thesis by (rule closed_after_marker [OF a c d b])
qed

lemma spec_compendium_parts:
  assumes "specIsCompendiumTable s"
  shows "\<exists>i. firstIndex CHR '']'' s = Some i
           \<and> compendiumIdParts s = split_on CHR ''.'' (take (i - 6) (drop 6 s))"
proof -
  obtain i where i: "firstIndex CHR '']'' s = Some i" "17 \<le> i"
    using spec_compendium_closed [OF assms] by blast
  have "6 \<le> i" using i(2) by simp
  then have "substring s (int 6) (indexOf s CHR '']'') = take (i - 6) (drop 6 s)"
    using i(1) by (intro substring_between)
  then show ?thesis using i(1) by (simp add: compendiumIdParts_def)
qed

lemma spec_world_id:
  assumes "specIsWorldTable s"
  shows "\<exists>i. firstIndex CHR '']'' s = Some i
           \<and> worldTableId s = take (i - 16) (drop 16 s)"
proof -
  obtain i where i: "firstIndex CHR '']'' s = Some i" "16 \<le> i"
    using spec_world_closed [OF assms] by blast
  have "substring s (int 16) (indexOf s CHR '']'') = take (i - 16) (drop 16 s)"
    using i by (intro substring_between)
  then show ?thesis using i(1) by (simp add: worldTableId_def)
qed

section \<open>Dispatch of rollFromTableString\<close>

lemma compendium_dispatch:
  "isCompendiumTable e s \<Longrightarrow> \<not> isWorldTable e s \<Longrightarrow>
   rollFromTableString e s w = (getCompendiumTableResult e s, w)"
  by (simp add: rollFromTableString_def)

lemma world_dispatch:
  "isWorldTable e s \<Longrightarrow> rollFromTableString e s w = getRollTableResult e s w"
  by (simp add: rollFromTableString_def)

text \<open>
  C1. For every input string that is classified neither as a world table nor as a
  compendium table, \<open>rollFromTableString\<close> returns the input string itself: no error, and
  no notification, warning or update.
\<close>

theorem rollFromTableString_passthrough:
  assumes "\<not> isWorldTable e s" and "\<not> isCompendiumTable e s"
  shows "rollFromTableString e s w = (Inr (Str s), w)"
  using assms by (simp add: rollFromTableString_def)

theorem rollFromTableString_passthrough_witness:
  "\<not> isWorldTable exampleEnv ''Goblin'' \<and> \<not> isCompendiumTable exampleEnv ''Goblin''
   \<and> rollFromTableString exampleEnv ''Goblin'' quiet = (Inr (Str ''Goblin''), quiet)"
proof -
  have a: "\<not> isWorldTable exampleEnv ''Goblin''" by code_simp
  have b: "\<not> isCompendiumTable exampleEnv ''Goblin''" by code_simp
  show ?thesis
    using a b rollFromTableString_passthrough [OF a b, of quiet] by simp
qed

section \<open>The world-table path\<close>

text \<open>A table that is found is rolled, and what the roll yields is returned as it is.\<close>

lemma world_found:
  assumes "find (\<lambda>t. tbl_id t = worldTableId s) (tables e) = Some t"
  shows "getRollTableResult e s w =
           (case rollTable e t of
              Inl m \<Rightarrow> (Inl (RollTableError m), w)
            | Inr results \<Rightarrow> (Inr results, w))"
  using assms by (simp add: getRollTableResult_def)

text \<open>
  C5. For every world-table string whose parsed identifier matches no table of the
  registry, resolution returns \<^verbatim>\<open>undefined\<close> without throwing, and its one effect is one
  error notification that names the string.
\<close>

theorem world_table_not_found:
  assumes "isWorldTable e s"
    and "find (\<lambda>t. tbl_id t = worldTableId s) (tables e) = None"
  shows "rollFromTableString e s w =
           (Inr Undefined,
            w\<lparr>notifications :=
                notifications w @ [''Can't find a table that matches '' @ s]\<rparr>)"
  using assms by (simp add: world_dispatch getRollTableResult_def notify_error_def)

theorem world_table_not_found_witness:
  "isWorldTable exampleEnv ''@UUID[RollTable.NOPE]{Nothing}''
   \<and> worldTableId ''@UUID[RollTable.NOPE]{Nothing}'' = ''NOPE''
   \<and> find (\<lambda>t. tbl_id t = ''NOPE'') (tables exampleEnv) = None
   \<and> rollFromTableString exampleEnv ''@UUID[RollTable.NOPE]{Nothing}'' quiet =
       (Inr Undefined,
        quiet\<lparr>notifications :=
          [''Can't find a table that matches @UUID[RollTable.NOPE]{Nothing}'']\<rparr>)"
proof -
  have a: "isWorldTable exampleEnv ''@UUID[RollTable.NOPE]{Nothing}''" by code_simp
  have b: "worldTableId ''@UUID[RollTable.NOPE]{Nothing}'' = ''NOPE''" by code_simp
  have c: "find (\<lambda>t. tbl_id t = ''NOPE'') (tables exampleEnv) = None" by code_simp
  have d: "find (\<lambda>t. tbl_id t = worldTableId ''@UUID[RollTable.NOPE]{Nothing}'')
             (tables exampleEnv) = None"
    using c by (simp only: b)
  show ?thesis
    using a b c world_table_not_found [OF a d, of quiet] by (simp add: quiet_def)
qed

section \<open>The compendium path\<close>

lemma format_error_thrown_iff:
  "(\<exists>d. getCompendiumTableResult e s = Inl (FormatError d))
     = (length (compendiumIdParts s) \<noteq> 5)"
  by (auto simp: getCompendiumTableResult_def Let_def split: option.splits sum.splits)

text \<open>The compendium path never returns an absent or empty result.\<close>

lemma compendium_result_nonempty:
  assumes "getCompendiumTableResult e s = Inr v"
  shows "truthy v \<and> 0 < jslength v"
  using assms
  by (auto simp: getCompendiumTableResult_def Let_def falsy_def
           split: option.splits sum.splits if_splits)

text \<open>
  C3. For every compendium-table string, the identifier between the 6-character prefix
  and the first closing bracket is split at the dots. When the split does not yield
  exactly 5 parts, resolution throws the format error, whose message ends with the input
  string; when it yields exactly 5 parts, resolution throws no format error. The last
  conjunct says that the parts the code computes are those of the text between the
  prefix and the first closing bracket, whenever that bracket stands after the prefix.
\<close>

theorem compendium_format_error_iff:
  assumes "isCompendiumTable e s" and "\<not> isWorldTable e s"
  shows "(length (compendiumIdParts s) \<noteq> 5 \<longrightarrow>
            rollFromTableString e s w = (Inl (FormatError s), w)
            \<and> message (FormatError s) =
                ''Expected format to match @UUID[Compendium.module.table.Rolltable.id] Got: '' @ s)
       \<and> (length (compendiumIdParts s) = 5 \<longrightarrow>
            (\<forall>d. fst (rollFromTableString e s w) \<noteq> Inl (FormatError d)))
       \<and> (\<forall>i. firstIndex CHR '']'' s = Some i \<and> 6 \<le> i \<longrightarrow>
            compendiumIdParts s = split_on CHR ''.'' (take (i - 6) (drop 6 s)))"
proof (intro conjI impI allI)
  assume "length (compendiumIdParts s) \<noteq> 5"
  then show "rollFromTableString e s w = (Inl (FormatError s), w)"
    using assms by (simp add: compendium_dispatch getCompendiumTableResult_def)
next
  show "message (FormatError s) =
      ''Expected format to match @UUID[Compendium.module.table.Rolltable.id] Got: '' @ s"
    by simp
next
  fix d
  assume "length (compendiumIdParts s) = 5"
  then have "\<not> (\<exists>d. getCompendiumTableResult e s = Inl (FormatError d))"
    by (simp add: format_error_thrown_iff)
  then show "fst (rollFromTableString e s w) \<noteq> Inl (FormatError d)"
    using assms by (simp add: compendium_dispatch)
next
  fix i
  assume "firstIndex CHR '']'' s = Some i \<and> 6 \<le> i"
  then have "substring s (int 6) (indexOf s CHR '']'') = take (i - 6) (drop 6 s)"
    by (intro substring_between) simp_all
  then show "compendiumIdParts s = split_on CHR ''.'' (take (i - 6) (drop 6 s))"
    by (simp add: compendiumIdParts_def)
qed

theorem compendium_format_error_iff_witness:
  "isCompendiumTable exampleEnv fourParts \<and> \<not> isWorldTable exampleEnv fourParts
   \<and> length (compendiumIdParts fourParts) = 4
   \<and> rollFromTableString exampleEnv fourParts quiet = (Inl (FormatError fourParts), quiet)
   \<and> isCompendiumTable exampleEnv fiveParts \<and> \<not> isWorldTable exampleEnv fiveParts
   \<and> length (compendiumIdParts fiveParts) = 5
   \<and> fst (rollFromTableString exampleEnv fiveParts quiet) \<noteq> Inl (FormatError fiveParts)"
proof -
  have a4: "isCompendiumTable exampleEnv fourParts" by code_simp
  have b4: "\<not> isWorldTable exampleEnv fourParts" by code_simp
  have c4: "length (compendiumIdParts fourParts) = 4" by code_simp
  have a5: "isCompendiumTable exampleEnv fiveParts" by code_simp
  have b5: "\<not> isWorldTable exampleEnv fiveParts" by code_simp
  have c5: "length (compendiumIdParts fiveParts) = 5" by code_simp
  have d4: "rollFromTableString exampleEnv fourParts quiet = (Inl (FormatError fourParts), quiet)"
    using compendium_format_error_iff [OF a4 b4, of quiet] c4 by simp
  have d5: "fst (rollFromTableString exampleEnv fiveParts quiet) \<noteq> Inl (FormatError fiveParts)"
    using compendium_format_error_iff [OF a5 b5, of quiet] c5 by simp
  show ?thesis using a4 b4 c4 d4 a5 b5 c5 d5 by simp
qed

text \<open>
  C4. For every compendium-table string whose identifier has the five parts tag,
  namespace, package, document type and resource id: when the registry has no pack
  \<^verbatim>\<open>namespace.package\<close>, resolution throws the error whose message names that pack id;
  when the pack exists and has no document with the resource id, resolution throws the
  error whose message names the resource id and the pack id.
\<close>

theorem compendium_lookup_errors:
  assumes "isCompendiumTable e s" and "\<not> isWorldTable e s"
    and "compendiumIdParts s = [tag, namespace, package, docType, resourceId]"
  shows "(packs e (namespace @ ''.'' @ package) = None \<longrightarrow>
            rollFromTableString e s w =
              (Inl (PackNotFound (namespace @ ''.'' @ package)), w))
       \<and> (\<forall>p. packs e (namespace @ ''.'' @ package) = Some p
                \<and> getDocument p resourceId = None \<longrightarrow>
            rollFromTableString e s w =
              (Inl (TableNotFound resourceId (namespace @ ''.'' @ package)), w))
       \<and> message (PackNotFound (namespace @ ''.'' @ package)) =
            ''Couldn't find a compendium with id '' @ namespace @ ''.'' @ package
       \<and> message (TableNotFound resourceId (namespace @ ''.'' @ package)) =
            ''Couldn't find table with id '' @ resourceId @ '' in pack ''
              @ namespace @ ''.'' @ package"
  using assms by (simp add: compendium_dispatch getCompendiumTableResult_def)

theorem compendium_lookup_errors_witness:
  "isCompendiumTable exampleEnv absentPack \<and> \<not> isWorldTable exampleEnv absentPack
   \<and> compendiumIdParts absentPack =
       [''Compendium'', ''other'', ''person-names'', ''RollTable'', ''AQBywLCajYDmBTay'']
   \<and> packs exampleEnv ''other.person-names'' = None
   \<and> rollFromTableString exampleEnv absentPack quiet =
       (Inl (PackNotFound ''other.person-names''), quiet)
   \<and> isCompendiumTable exampleEnv absentDocument \<and> \<not> isWorldTable exampleEnv absentDocument
   \<and> compendiumIdParts absentDocument =
       [''Compendium'', ''monks-enhanced-journal'', ''person-names'', ''RollTable'', ''ZZZ'']
   \<and> packs exampleEnv ''monks-enhanced-journal.person-names'' = Some personNames
   \<and> getDocument personNames ''ZZZ'' = None
   \<and> rollFromTableString exampleEnv absentDocument quiet =
       (Inl (TableNotFound ''ZZZ'' ''monks-enhanced-journal.person-names''), quiet)"
proof -
  have a1: "isCompendiumTable exampleEnv absentPack" by code_simp
  have b1: "\<not> isWorldTable exampleEnv absentPack" by code_simp
  have c1: "compendiumIdParts absentPack =
      [''Compendium'', ''other'', ''person-names'', ''RollTable'', ''AQBywLCajYDmBTay'']"
    by code_simp
  have d1: "packs exampleEnv ''other.person-names'' = None" by code_simp
  have r1: "rollFromTableString exampleEnv absentPack quiet =
      (Inl (PackNotFound ''other.person-names''), quiet)"
    using compendium_lookup_errors [OF a1 b1 c1, of quiet] d1 by simp
  have a2: "isCompendiumTable exampleEnv absentDocument" by code_simp
  have b2: "\<not> isWorldTable exampleEnv absentDocument" by code_simp
  have c2: "compendiumIdParts absentDocument =
      [''Compendium'', ''monks-enhanced-journal'', ''person-names'', ''RollTable'', ''ZZZ'']"
    by code_simp
  have d2: "packs exampleEnv ''monks-enhanced-journal.person-names'' = Some personNames"
    by (simp add: exampleEnv_def)
  have e2: "getDocument personNames ''ZZZ'' = None" by (simp add: personNames_def)
  have r2: "rollFromTableString exampleEnv absentDocument quiet =
      (Inl (TableNotFound ''ZZZ'' ''monks-enhanced-journal.person-names''), quiet)"
    using compendium_lookup_errors [OF a2 b2 c2, of quiet] d2 e2 by simp
  show ?thesis using a1 b1 c1 d1 r1 a2 b2 c2 d2 e2 r2 by simp
qed

text \<open>
  C2. The specification states that, for every reference string, resolution either succeeds with a non-empty
  sequence of results or fails with a reported error. The compendium path keeps it
  (\<open>compendium_result_nonempty\<close>); the world path returns what the roll yields without
  the check (\<open>world_found\<close>). Here the registry holds a table whose roll yields the
  empty array: resolution returns that empty array as its result, with no notification
  and no error.
\<close>

theorem world_table_empty_roll:
  "isWorldTable exampleEnv ''@UUID[RollTable.EMPTY1]{Nothing}''
   \<and> find (\<lambda>t. tbl_id t = worldTableId ''@UUID[RollTable.EMPTY1]{Nothing}'')
         (tables exampleEnv) = Some blankTable
   \<and> rollTable exampleEnv blankTable = Inr (Arr [])
   \<and> rollFromTableString exampleEnv ''@UUID[RollTable.EMPTY1]{Nothing}'' quiet
       = (Inr (Arr []), quiet)"
  by code_simp

section \<open>Mining\<close>

lemma mining_of_linked_token:
  assumes "actorLink t"
  shows "mineForTableStrings e t =
     (case resolveActorId t of
        Inl err \<Rightarrow> Inl err
      | Inr i \<Rightarrow>
          Inr \<lparr>nameTableStr = classified e (trim (name t)),
               bioDataPath = None, bioTableStr = None\<rparr>)"
  using assms by (simp add: mineForTableStrings_def Let_def split: sum.splits)

text \<open>
  C7. For every token record with \<^verbatim>\<open>actorLink\<close> set, mining does not depend on the actor
  registry or on the rendering of a biography (it reads neither), and a mining result
  it returns has neither a bio table string nor a bio data path, whatever the biography
  of the linked actor is.
\<close>

theorem mine_linked_no_bio:
  assumes "actorLink t"
  shows "mineForTableStrings (e\<lparr>actors := registry, innerText := render\<rparr>) t
           = mineForTableStrings e t
       \<and> mineForTableStrings e t =
           (case resolveActorId t of
              Inl err \<Rightarrow> Inl err
            | Inr i \<Rightarrow>
                Inr \<lparr>nameTableStr = classified e (trim (name t)),
                     bioDataPath = None, bioTableStr = None\<rparr>)
       \<and> (\<forall>r. mineForTableStrings e t = Inr r \<longrightarrow>
              bioTableStr r = None \<and> bioDataPath r = None)"
  using assms by (auto simp: mining_of_linked_token classified_def split: sum.splits)

theorem mine_linked_no_bio_witness:
  "actorLink linkedToken
   \<and> actors exampleEnv ''actor1'' = Some bioActor
   \<and> isWorldTable exampleEnv ''@UUID[RollTable.ABC123]{Bio}''
   \<and> biography (system bioActor) = Some ''@UUID[RollTable.ABC123]{Bio}''
   \<and> mineForTableStrings exampleEnv linkedToken =
       Inr \<lparr>nameTableStr = Some ''@UUID[RollTable.ABC123]{Goblin Name}'',
            bioDataPath = None, bioTableStr = None\<rparr>"
proof -
  have a: "actorLink linkedToken" by code_simp
  have b: "actors exampleEnv ''actor1'' = Some bioActor" by (simp add: exampleEnv_def)
  have c: "isWorldTable exampleEnv ''@UUID[RollTable.ABC123]{Bio}''" by code_simp
  have d: "biography (system bioActor) = Some ''@UUID[RollTable.ABC123]{Bio}''"
    by (simp add: bioActor_def)
  have r: "resolveActorId linkedToken = Inr (Some ''actor1'')" by code_simp
  have n: "classified exampleEnv (trim (name linkedToken))
             = Some ''@UUID[RollTable.ABC123]{Goblin Name}''"
    by code_simp
  have "mineForTableStrings exampleEnv linkedToken =
       Inr \<lparr>nameTableStr = Some ''@UUID[RollTable.ABC123]{Goblin Name}'',
            bioDataPath = None, bioTableStr = None\<rparr>"
    using mine_linked_no_bio [OF a, where e = exampleEnv and registry = "actors exampleEnv"
        and render = "innerText exampleEnv"]
    by (simp add: r n)
  then show ?thesis using a b c d by simp
qed

text \<open>The two reads of the biography, the flat field first.\<close>

lemma readBiography_flat:
  assumes "truthyStr (biography d)"
  shows "readBiography d = (biography d, Some ''data.biography'')"
  using assms by (simp add: readBiography_def)

lemma readBiography_nested:
  assumes "\<not> truthyStr (biography d)" and "truthyStr (nestedBiography d)"
  shows "readBiography d = (nestedBiography d, Some ''system.details.biography.value'')"
  using assms by (simp add: readBiography_def)

text \<open>The path recorded on the nested read leads back to the field that was read.\<close>

lemma nested_path_addresses_read:
  "actorField a ''system.details.biography.value'' = nestedBiography (system a)"
  by (simp add: actorField_def)

text \<open>The path recorded on the flat read leads to neither biography field.\<close>

lemma flat_path_addresses_nothing: "actorField a ''data.biography'' = None"
  by (simp add: actorField_def)

text \<open>
  C8. The specification states that the field path recorded in the mining result identifies the location
  the biography was read from. The nested read keeps it
  (\<open>nested_path_addresses_read\<close>). The flat read takes the text from
  \<^verbatim>\<open>actor.system.biography\<close> and records \<^verbatim>\<open>data.biography\<close>: on an actor of the simple
  worldbuilding system the recorded key does not lead to the field that was read, which
  is the one \<^verbatim>\<open>system.biography\<close> leads to, and the write-back goes to the recorded key.
\<close>

theorem flat_biography_path_mismatch:
  "actors exampleEnv ''actor1'' = Some bioActor
   \<and> biography (system bioActor) = Some ''@UUID[RollTable.ABC123]{Bio}''
   \<and> mineForTableStrings exampleEnv goblinToken =
       Inr \<lparr>nameTableStr = Some ''@UUID[RollTable.ABC123]{Goblin Name}'',
            bioDataPath = Some ''data.biography'',
            bioTableStr = Some ''@UUID[RollTable.ABC123]{Bio}''\<rparr>
   \<and> actorField bioActor ''data.biography'' = None
   \<and> actorField bioActor ''system.biography'' = Some ''@UUID[RollTable.ABC123]{Bio}''
   \<and> createToken exampleEnv goblinToken quiet =
       (Inr (), goblinToken\<lparr>name := '' ''\<rparr>,
        quiet\<lparr>updates :=
          [TokenUpdate ''name'' (Arr [''Grix'']),
           ActorUpdate ''actor1'' ''data.biography'' (Arr [''Grix'']),
           ActorUpdate ''actor1'' ''name'' (Arr [''Grix''])]\<rparr>)"
  by code_simp

text \<open>
  C10. For every token record that is not linked and whose actor id (its own, or the
  id of its document when it has none) is a non-empty string that the actor registry
  does not hold, \<open>mineForTableStrings\<close> throws the error of reading \<^verbatim>\<open>system\<close> of
  \<^verbatim>\<open>undefined\<close>. The handler of the hook calls it outside any \<^verbatim>\<open>try\<close>: its promise
  rejects with that error, and the token and the world are as they were.
\<close>

theorem mine_throws_on_missing_actor:
  assumes "\<not> actorLink t" and "resolveActorId t = Inr (Some i)" and "i \<noteq> []"
    and "actors e i = None"
  shows "mineForTableStrings e t = Inl (TypeError ''undefined'' ''system'')
       \<and> createToken e t w = (Inl (TypeError ''undefined'' ''system''), t, w)"
  using assms by (simp add: mineForTableStrings_def createToken_def Let_def)

theorem mine_throws_on_missing_actor_witness:
  "\<not> actorLink orphanToken \<and> resolveActorId orphanToken = Inr (Some ''ghost'')
   \<and> actors exampleEnv ''ghost'' = None
   \<and> mineForTableStrings exampleEnv orphanToken = Inl (TypeError ''undefined'' ''system'')
   \<and> createToken exampleEnv orphanToken quiet
       = (Inl (TypeError ''undefined'' ''system''), orphanToken, quiet)
   \<and> \<not> actorLink fallbackToken \<and> resolveActorId fallbackToken = Inr (Some ''tok9'')
   \<and> actors exampleEnv ''tok9'' = None
   \<and> mineForTableStrings exampleEnv fallbackToken = Inl (TypeError ''undefined'' ''system'')
   \<and> createToken exampleEnv fallbackToken quiet
       = (Inl (TypeError ''undefined'' ''system''), fallbackToken, quiet)"
proof -
  have a1: "\<not> actorLink orphanToken" by code_simp
  have b1: "resolveActorId orphanToken = Inr (Some ''ghost'')" by code_simp
  have c1: "actors exampleEnv ''ghost'' = None" by code_simp
  have a2: "\<not> actorLink fallbackToken" by code_simp
  have b2: "resolveActorId fallbackToken = Inr (Some ''tok9'')" by code_simp
  have c2: "actors exampleEnv ''tok9'' = None" by code_simp
  show ?thesis
    using a1 b1 c1 a2 b2 c2
      mine_throws_on_missing_actor [OF a1 b1 _ c1, of quiet]
      mine_throws_on_missing_actor [OF a2 b2 _ c2, of quiet]
    by simp
qed

section \<open>Rolling\<close>

text \<open>
  C6. The specification states that, when one of the two references fails to resolve, \<open>getNewRolledValues\<close>
  logs a warning, leaves out the failed field only, still returns the value that
  resolved, and the handler goes on. On \<open>dwarfToken\<close> the name resolves to
  \<^verbatim>\<open>["Grix"]\<close> and the biography names a pack that does not exist. The one \<^verbatim>\<open>try\<close>
  around both rolls catches the error and logs the warning with the module's prefix,
  but the function then returns \<^verbatim>\<open>undefined\<close>: no record, and the rolled name is lost.
  \<open>saveRolledValues\<close> reads \<^verbatim>\<open>name\<close> of that \<^verbatim>\<open>undefined\<close>, so the handler's promise
  rejects, no update is made, and the token keeps the placeholder name.
\<close>

theorem partial_failure_returns_nothing:
  "mineForTableStrings exampleEnv dwarfToken = Inr dwarfMining
   \<and> rollFromTableString exampleEnv ''@UUID[RollTable.ABC123]{Goblin Name}'' quiet
       = (Inr (Arr [''Grix'']), quiet)
   \<and> rollFromTableString exampleEnv ''@UUID[Compendium.gone.names.RollTable.XYZ]{Bio}'' quiet
       = (Inl (PackNotFound ''gone.names''), quiet)
   \<and> getNewRolledValues exampleEnv dwarfMining quiet =
       (None,
        quiet\<lparr>warnings :=
          [''[All Goblins Have Names]: Couldn't find a compendium with id gone.names'']\<rparr>)
   \<and> createToken exampleEnv dwarfToken quiet =
       (Inl (TypeError ''undefined'' ''name''),
        dwarfToken\<lparr>name := '' ''\<rparr>,
        quiet\<lparr>warnings :=
          [''[All Goblins Have Names]: Couldn't find a compendium with id gone.names'']\<rparr>)"
  by code_simp

text \<open>A failure of the first roll skips the second: one warning, no record.\<close>

lemma name_failure_skips_bio:
  assumes "nameTableStr m = Some n" and "n \<noteq> []"
    and "rollFromTableString e n w = (Inl err, w')"
  shows "getNewRolledValues e m w = caught err w'"
  using assms by (simp add: getNewRolledValues_def Let_def)

text \<open>A failure of the second roll discards the value of the first.\<close>

lemma bio_failure_discards_name:
  assumes "nameTableStr m = Some n" and "n \<noteq> []"
    and "rollFromTableString e n w = (Inr v, w1)"
    and "bioTableStr m = Some b" and "b \<noteq> []"
    and "rollFromTableString e b w1 = (Inl err, w2)"
  shows "getNewRolledValues e m w = caught err w2"
  using assms by (simp add: getNewRolledValues_def Let_def)

text \<open>
  Whenever \<open>getNewRolledValues\<close> has caught an error, the handler rejects: the token
  has the placeholder name and nothing is written.
\<close>

lemma handler_rejects_after_catch:
  assumes "mineForTableStrings e t = Inr m"
    and "truthyStr (nameTableStr m) \<or> truthyStr (bioTableStr m)"
    and "getNewRolledValues e m w = (None, w1)"
  shows "createToken e t w =
           (Inl (TypeError ''undefined'' ''name''), t\<lparr>name := '' ''\<rparr>, w1)"
  using assms by (auto simp: createToken_def Let_def saveRolledValues_def)

text \<open>A token without a table string is left alone: no placeholder, no effect.\<close>

lemma plain_name_no_placeholder:
  assumes "mineForTableStrings e t = Inr m"
    and "\<not> truthyStr (nameTableStr m)" and "\<not> truthyStr (bioTableStr m)"
  shows "createToken e t w = (Inr (), t, w)"
  using assms by (simp add: createToken_def)

section \<open>Writing back\<close>

text \<open>Without a record of rolled values nothing is written.\<close>

lemma save_without_result:
  "saveRolledValues e t None w = (Inl (TypeError ''undefined'' ''name''), w)"
  by (simp add: saveRolledValues_def)

text \<open>
  C9. For every write-back of a record of rolled values to a token that has an actor:
  the token's \<^verbatim>\<open>name\<close> is updated in every case, with the rolled name even when that is
  \<^verbatim>\<open>undefined\<close>; the actor is updated at the recorded data path exactly when the rolled
  bio is truthy; the actor's \<^verbatim>\<open>name\<close> is updated exactly when the setting
  \<^verbatim>\<open>syncActorName\<close> is on and the rolled name is truthy. These are all the updates, in
  this order.
\<close>

theorem saveRolledValues_updates:
  assumes "actor t = Some a"
  shows "saveRolledValues e t (Some r) w =
           (Inr (),
            w\<lparr>updates := updates w
                 @ [TokenUpdate ''name'' (res_name r)]
                 @ (if truthy (res_bio r)
                    then [ActorUpdate a (computedKey (res_bioDataPath r)) (res_bio r)]
                    else [])
                 @ (if syncActorName e \<and> truthy (res_name r)
                    then [ActorUpdate a ''name'' (res_name r)]
                    else [])\<rparr>)"
  using assms by (simp add: saveRolledValues_def actorUpdate_def do_update_def Let_def)

theorem saveRolledValues_updates_witness:
  "actor dwarfToken = Some ''actor2'' \<and> syncActorName exampleEnv
   \<and> saveRolledValues exampleEnv dwarfToken (Some bioOnly) quiet =
       (Inr (),
        quiet\<lparr>updates :=
          [TokenUpdate ''name'' Undefined,
           ActorUpdate ''actor2'' ''system.details.biography.value'' (Arr [''A dour smith''])]\<rparr>)"
proof -
  have a: "actor dwarfToken = Some ''actor2''" by code_simp
  have b: "syncActorName exampleEnv" by code_simp
  show ?thesis
    using a b saveRolledValues_updates [OF a, of exampleEnv bioOnly quiet]
    by (simp add: bioOnly_def quiet_def computedKey_def)
qed

text \<open>A token without an actor: the name is updated, and an update of the actor throws.\<close>

lemma save_without_actor:
  assumes "actor t = None"
  shows "saveRolledValues e t (Some r) w =
           (if truthy (res_bio r) \<or> (syncActorName e \<and> truthy (res_name r))
            then Inl (TypeError ''null'' ''update'') else Inr (),
            w\<lparr>updates := updates w @ [TokenUpdate ''name'' (res_name r)]\<rparr>)"
  using assms by (simp add: saveRolledValues_def actorUpdate_def do_update_def Let_def)

end
